theory Spec2Isabelle
  imports Main
begin

section \<open>JavaScript values used by the program\<close>

subsection \<open>Numbers\<close>

text \<open>
  The counter is a JavaScript number. The model carries the integral numbers and
  \<^verbatim>\<open>NaN\<close> (which \<^verbatim>\<open>parseInt\<close> returns where it finds no digits). A JavaScript
  number is an IEEE double: integers up to \<^verbatim>\<open>Number.MAX_SAFE_INTEGER\<close> in magnitude are
  exact, and their sum with 1 and their decimal numeral are what they are for
  mathematical integers. Theorems that depend on this arithmetic carry the bound as a
  hypothesis.
\<close>

datatype number = NaN | Num int

definition MAX_SAFE_INTEGER :: int where
  "MAX_SAFE_INTEGER = 2 ^ 53 - 1"

text \<open>\<^verbatim>\<open>current + 1\<close>\<close>

fun plus_one :: "number \<Rightarrow> number" where
  "plus_one NaN = NaN"
| "plus_one (Num n) = Num (n + 1)"

subsection \<open>Strings, decimal numerals and \<^verbatim>\<open>parseInt\<close>\<close>

text \<open>
  A \<^typ>\<open>char\<close> is a code unit below 256. The white space that \<^verbatim>\<open>parseInt\<close> and
  \<^verbatim>\<open>String.prototype.trim\<close> skip is, in that range: TAB, LF, VT, FF, CR, SPACE and
  NBSP.
\<close>

definition isWhiteSpace :: "char \<Rightarrow> bool" where
  "isWhiteSpace c = ((of_char c :: nat) \<in> {9, 10, 11, 12, 13, 32, 160})"

definition isDigit :: "char \<Rightarrow> bool" where
  "isDigit c = (48 \<le> (of_char c :: nat) \<and> (of_char c :: nat) \<le> 57)"

definition digit_value :: "char \<Rightarrow> nat" where
  "digit_value c = of_char c - 48"

definition digit_char :: "nat \<Rightarrow> char" where
  "digit_char d = char_of (48 + d)"

text \<open>The decimal numeral of a natural number, as \<^verbatim>\<open>Number.prototype.toString\<close> writes it.\<close>

fun decimal :: "nat \<Rightarrow> string" where
  "decimal n = (if n < 10 then [digit_char n] else decimal (n div 10) @ [digit_char (n mod 10)])"

declare decimal.simps [simp del]

text \<open>\<^verbatim>\<open>count.toString()\<close> and the conversion of a number inside a template literal.\<close>

fun number_toString :: "number \<Rightarrow> string" where
  "number_toString NaN = ''NaN''"
| "number_toString (Num n) = (if n < 0 then ''-'' @ decimal (nat (- n)) else decimal (nat n))"

text \<open>The value of a sequence of decimal digits, most significant first.\<close>

fun digits_value :: "nat \<Rightarrow> string \<Rightarrow> nat" where
  "digits_value acc [] = acc"
| "digits_value acc (c # cs) = digits_value (acc * 10 + digit_value c) cs"

text \<open>
  \<^verbatim>\<open>parseInt(string, 10)\<close>: leading white space is skipped, one sign is read, then the
  longest run of decimal digits; with no digit the result is \<^verbatim>\<open>NaN\<close>. Whatever
  follows the digits is ignored.
\<close>

definition parseInt_string :: "string \<Rightarrow> number" where
  "parseInt_string s =
     (let S = dropWhile isWhiteSpace s;
          negative = (case S of [] \<Rightarrow> False | c # _ \<Rightarrow> c = CHR ''-'');
          S' = (case S of [] \<Rightarrow> [] | c # cs \<Rightarrow> if c = CHR ''-'' \<or> c = CHR ''+'' then cs else S);
          Z = takeWhile isDigit S'
      in if Z = [] then NaN
         else if negative then Num (- int (digits_value 0 Z))
         else Num (int (digits_value 0 Z)))"

subsection \<open>Errors\<close>

text \<open>
  What the program can throw. A Node file-system error carries its \<^verbatim>\<open>code\<close>
  (\<^verbatim>\<open>ENOENT\<close>, \<^verbatim>\<open>EACCES\<close>, ...). \<open>SyntaxError\<close> is thrown by \<^verbatim>\<open>JSON.parse\<close> and
  \<^verbatim>\<open>response.json()\<close>; \<open>TypeError\<close> by a property read on \<^verbatim>\<open>null\<close> and by the
  conversion of an object that has no usable \<^verbatim>\<open>toString\<close>; \<open>Error\<close> is
  \<^verbatim>\<open>new Error(message)\<close>; \<open>Rejected\<close> is the rejection of a promise of the network
  layer (\<^verbatim>\<open>fetch\<close>, the KV client), carrying its message.

  \<open>NotModelled\<close> is not an exception of the program: it marks a text that uses a part
  of JSON this development does not interpret (see \<open>JSON_parse\<close> below).
\<close>

datatype js_error =
    SystemError string
  | SyntaxError
  | TypeError
  | Error string
  | Rejected string
  | NotModelled

text \<open>\<^verbatim>\<open>error.code\<close>: only file-system errors have one.\<close>

fun code :: "js_error \<Rightarrow> string option" where
  "code (SystemError c) = Some c"
| "code _ = None"

subsection \<open>JSON documents\<close>

text \<open>
  The values \<^verbatim>\<open>JSON.parse\<close> produces. Numbers are the integral ones; an object is the
  list of its members in the order of the text.
\<close>

datatype json =
    JNull
  | JBool bool
  | JNum int
  | JStr string
  | JArr "json list"
  | JObj "(string \<times> json) list"

text \<open>Truthiness, as \<^verbatim>\<open>||\<close> tests it.\<close>

fun truthy :: "json \<Rightarrow> bool" where
  "truthy JNull = False"
| "truthy (JBool b) = b"
| "truthy (JNum n) = (n \<noteq> 0)"
| "truthy (JStr s) = (s \<noteq> [])"
| "truthy (JArr _) = True"
| "truthy (JObj _) = True"

text \<open>
  \<^verbatim>\<open>a || b\<close> where \<open>a\<close> is the result of a property read: \<open>None\<close> is \<^verbatim>\<open>undefined\<close>.
\<close>

fun or_else :: "json option \<Rightarrow> json \<Rightarrow> json" where
  "or_else None b = b"
| "or_else (Some a) b = (if truthy a then a else b)"

text \<open>
  \<^verbatim>\<open>value.name\<close> for the names this program reads (\<^verbatim>\<open>count\<close>, \<^verbatim>\<open>result\<close>,
  \<^verbatim>\<open>value\<close>), none of which is inherited from a prototype: reading a property of
  \<^verbatim>\<open>null\<close> throws, an object gives its own member (the last one of that name in the
  text), every other value gives \<^verbatim>\<open>undefined\<close>.
\<close>

fun get_property :: "json \<Rightarrow> string \<Rightarrow> js_error + json option" where
  "get_property JNull name = Inl TypeError"
| "get_property (JObj members) name = Inr (map_of (rev members) name)"
| "get_property _ name = Inr None"

text \<open>
  The conversion to a string that \<^verbatim>\<open>parseInt\<close> applies to its argument; \<open>None\<close> is
  a thrown \<open>TypeError\<close>. An array is the join of its elements with commas, where
  \<^verbatim>\<open>null\<close> elements give the empty string; an object is \<^verbatim>\<open>[object Object]\<close> unless it
  has a member named \<^verbatim>\<open>toString\<close>, which hides the inherited method and, not being
  a function, leaves no conversion.
\<close>

fun ToString :: "json \<Rightarrow> string option"
  and join :: "json list \<Rightarrow> string option" where
  "ToString JNull = Some ''null''"
| "ToString (JBool b) = Some (if b then ''true'' else ''false'')"
| "ToString (JNum n) = Some (number_toString (Num n))"
| "ToString (JStr s) = Some s"
| "ToString (JArr elements) = join elements"
| "ToString (JObj members) =
     (if ''toString'' \<in> fst ` set members then None else Some ''[object Object]'')"
| "join [] = Some []"
| "join (e # es) =
     (case (if e = JNull then Some [] else ToString e) of
        None \<Rightarrow> None
      | Some s \<Rightarrow>
          (if es = [] then Some s
           else (case join es of None \<Rightarrow> None | Some r \<Rightarrow> Some (s @ '','' @ r))))"

text \<open>\<^verbatim>\<open>parseInt(value, 10)\<close>\<close>

definition parseInt :: "json \<Rightarrow> js_error + number" where
  "parseInt v = (case ToString v of None \<Rightarrow> Inl TypeError | Some s \<Rightarrow> Inr (parseInt_string s))"

subsection \<open>\<^verbatim>\<open>JSON.parse\<close>\<close>

text \<open>
  \<^verbatim>\<open>JSON.parse\<close> reads a text one character at a time, with a stack of the arrays
  and objects it is inside. It covers the JSON grammar except for what the values
  above cannot carry, where the result is \<open>NotModelled\<close> instead of a verdict:
  numbers with a fraction or an exponent, integers beyond
  \<^verbatim>\<open>Number.MAX_SAFE_INTEGER\<close>, \<^verbatim>\<open>\u\<close> escapes and characters outside ASCII.
\<close>

datatype frame =
    ArrF "json list"
  | ObjF "(string \<times> json) list"
  | ObjV "(string \<times> json) list" string

text \<open>
  \<open>ArrF es\<close>: inside an array whose elements so far are \<open>es\<close>, newest first.
  \<open>ObjF ms\<close>: inside an object with members \<open>ms\<close>, newest first, between members.
  \<open>ObjV ms k\<close>: inside an object, reading the value of the member named \<open>k\<close>.
\<close>

datatype mode =
    ExpectValue
  | AfterOpenArr
  | AfterOpenObj
  | ExpectKey
  | ExpectColon
  | InString bool string
  | InEscape bool string
  | InLiteral string json
  | AfterMinus
  | AfterZero
  | InDigits bool nat
  | AfterMember
  | Complete json

text \<open>
  \<open>ExpectValue\<close>: a value must start here. \<open>AfterOpenArr\<close>: just after \<^verbatim>\<open>[\<close>.
  \<open>AfterOpenObj\<close>: just after \<^verbatim>\<open>{\<close>. \<open>ExpectKey\<close>: after a comma in an object.
  \<open>ExpectColon\<close>: after a member name. \<open>InString key acc\<close>: inside a string (a member name
  when \<open>key\<close>) whose characters so far are \<open>acc\<close>, newest first. \<open>InEscape\<close>: after a
  backslash in a string. \<open>InLiteral rest v\<close>: inside \<^verbatim>\<open>null\<close>, \<^verbatim>\<open>true\<close> or
  \<^verbatim>\<open>false\<close>, with \<open>rest\<close> still to come. \<open>AfterMinus\<close>: after a minus sign.
  \<open>AfterZero\<close>: after the single digit 0 of a number. \<open>InDigits negative n\<close>: inside the
  digits of an integer. \<open>AfterMember\<close>: after a value inside an array or object.
  \<open>Complete v\<close>: after the whole value \<open>v\<close>.
\<close>

datatype config = Cfg mode "frame list" | Fail | Beyond

definition isJSONSpace :: "char \<Rightarrow> bool" where
  "isJSONSpace c = ((of_char c :: nat) \<in> {9, 10, 13, 32})"

text \<open>A finished value goes to the enclosing array or object, or is the result.\<close>

fun deliver :: "json \<Rightarrow> frame list \<Rightarrow> config" where
  "deliver v [] = Cfg (Complete v) []"
| "deliver v (ArrF es # st) = Cfg AfterMember (ArrF (v # es) # st)"
| "deliver v (ObjV ms k # st) = Cfg AfterMember (ObjF ((k, v) # ms) # st)"
| "deliver v (ObjF ms # st) = Fail"

text \<open>The character after a finished value.\<close>

fun after_value :: "config \<Rightarrow> char \<Rightarrow> config" where
  "after_value (Cfg (Complete v) st) c = (if isJSONSpace c then Cfg (Complete v) st else Fail)"
| "after_value (Cfg AfterMember (ArrF es # st)) c =
     (if isJSONSpace c then Cfg AfterMember (ArrF es # st)
      else if c = CHR '','' then Cfg ExpectValue (ArrF es # st)
      else if c = CHR '']'' then deliver (JArr (rev es)) st
      else Fail)"
| "after_value (Cfg AfterMember (ObjF ms # st)) c =
     (if isJSONSpace c then Cfg AfterMember (ObjF ms # st)
      else if c = CHR '','' then Cfg ExpectKey (ObjF ms # st)
      else if c = CHR ''}'' then deliver (JObj (rev ms)) st
      else Fail)"
| "after_value _ c = Fail"

text \<open>The first character of a value.\<close>

definition value_start :: "frame list \<Rightarrow> char \<Rightarrow> config" where
  "value_start st c =
     (if c = CHR 0x22 then Cfg (InString False []) st
      else if c = CHR ''['' then Cfg AfterOpenArr (ArrF [] # st)
      else if c = CHR ''{'' then Cfg AfterOpenObj (ObjF [] # st)
      else if c = CHR ''-'' then Cfg AfterMinus st
      else if c = CHR ''0'' then Cfg AfterZero st
      else if isDigit c then Cfg (InDigits False (digit_value c)) st
      else if c = CHR ''t'' then Cfg (InLiteral ''rue'' (JBool True)) st
      else if c = CHR ''f'' then Cfg (InLiteral ''alse'' (JBool False)) st
      else if c = CHR ''n'' then Cfg (InLiteral ''ull'' JNull) st
      else Fail)"

text \<open>The end of a string: a member name waits for its colon, a value is delivered.\<close>

fun close_string :: "bool \<Rightarrow> string \<Rightarrow> frame list \<Rightarrow> config" where
  "close_string False s st = deliver (JStr s) st"
| "close_string True s (ObjF ms # st) = Cfg ExpectColon (ObjV ms s # st)"
| "close_string True s st = Fail"

text \<open>The end of the digits of an integer.\<close>

definition close_int :: "bool \<Rightarrow> nat \<Rightarrow> frame list \<Rightarrow> config" where
  "close_int negative n st =
     (if int n > MAX_SAFE_INTEGER then Beyond
      else deliver (JNum (if negative then - int n else int n)) st)"

fun step :: "config \<Rightarrow> char \<Rightarrow> config" where
  "step Fail c = Fail"
| "step Beyond c = Beyond"
| "step (Cfg ExpectValue st) c = (if isJSONSpace c then Cfg ExpectValue st else value_start st c)"
| "step (Cfg AfterOpenArr st) c =
     (if isJSONSpace c then Cfg AfterOpenArr st
      else if c = CHR '']'' then deliver (JArr []) (tl st)
      else value_start st c)"
| "step (Cfg AfterOpenObj st) c =
     (if isJSONSpace c then Cfg AfterOpenObj st
      else if c = CHR ''}'' then deliver (JObj []) (tl st)
      else if c = CHR 0x22 then Cfg (InString True []) st
      else Fail)"
| "step (Cfg ExpectKey st) c =
     (if isJSONSpace c then Cfg ExpectKey st
      else if c = CHR 0x22 then Cfg (InString True []) st
      else Fail)"
| "step (Cfg ExpectColon st) c =
     (if isJSONSpace c then Cfg ExpectColon st
      else if c = CHR '':'' then Cfg ExpectValue st
      else Fail)"
| "step (Cfg (InString key acc) st) c =
     (if c = CHR 0x22 then close_string key (rev acc) st
      else if c = CHR 0x5C then Cfg (InEscape key acc) st
      else if (of_char c :: nat) < 32 then Fail
      else if (of_char c :: nat) \<ge> 128 then Beyond
      else Cfg (InString key (c # acc)) st)"
| "step (Cfg (InEscape key acc) st) c =
     (if c = CHR 0x22 \<or> c = CHR 0x5C \<or> c = CHR ''/'' then Cfg (InString key (c # acc)) st
      else if c = CHR ''b'' then Cfg (InString key (CHR 0x08 # acc)) st
      else if c = CHR ''f'' then Cfg (InString key (CHR 0x0C # acc)) st
      else if c = CHR ''n'' then Cfg (InString key (CHR 0x0A # acc)) st
      else if c = CHR ''r'' then Cfg (InString key (CHR 0x0D # acc)) st
      else if c = CHR ''t'' then Cfg (InString key (CHR 0x09 # acc)) st
      else if c = CHR ''u'' then Beyond
      else Fail)"
| "step (Cfg (InLiteral rest v) st) c =
     (case rest of
        [] \<Rightarrow> Fail
      | r # rs \<Rightarrow> if c \<noteq> r then Fail else if rs = [] then deliver v st else Cfg (InLiteral rs v) st)"
| "step (Cfg AfterMinus st) c =
     (if c = CHR ''0'' then Cfg AfterZero st
      else if isDigit c then Cfg (InDigits True (digit_value c)) st
      else Fail)"
| "step (Cfg AfterZero st) c =
     (if isDigit c then Fail
      else if c = CHR ''.'' \<or> c = CHR ''e'' \<or> c = CHR ''E'' then Beyond
      else after_value (deliver (JNum 0) st) c)"
| "step (Cfg (InDigits negative n) st) c =
     (if isDigit c then Cfg (InDigits negative (n * 10 + digit_value c)) st
      else if c = CHR ''.'' \<or> c = CHR ''e'' \<or> c = CHR ''E'' then Beyond
      else (case close_int negative n st of
              Cfg m st' \<Rightarrow> after_value (Cfg m st') c
            | Fail \<Rightarrow> Fail
            | Beyond \<Rightarrow> Beyond))"
| "step (Cfg AfterMember st) c = (case st of [] \<Rightarrow> Fail | _ \<Rightarrow> after_value (Cfg AfterMember st) c)"
| "step (Cfg (Complete v) st) c = after_value (Cfg (Complete v) st) c"

text \<open>The end of the text: only a whole value, with nothing open, is a result.\<close>

fun finish :: "config \<Rightarrow> js_error + json" where
  "finish (Cfg (Complete v) []) = Inr v"
| "finish (Cfg AfterZero []) = Inr (JNum 0)"
| "finish (Cfg (InDigits negative n) []) =
     (if int n > MAX_SAFE_INTEGER then Inl NotModelled
      else Inr (JNum (if negative then - int n else int n)))"
| "finish Beyond = Inl NotModelled"
| "finish _ = Inl SyntaxError"

definition JSON_parse :: "string \<Rightarrow> js_error + json" where
  "JSON_parse text = finish (foldl step (Cfg ExpectValue []) text)"

subsection \<open>\<^verbatim>\<open>JSON.stringify\<close>\<close>

text \<open>
  A number member: \<^verbatim>\<open>NaN\<close> is written as \<^verbatim>\<open>null\<close>.
\<close>

fun JSON_number :: "number \<Rightarrow> string" where
  "JSON_number NaN = ''null''"
| "JSON_number (Num n) = number_toString (Num n)"

text \<open>
  \<^verbatim>\<open>JSON.stringify({ count }, null, 2)\<close>: the object with the one member
  \<^verbatim>\<open>count\<close>, indented by two spaces.
\<close>

definition JSON_stringify_count :: "number \<Rightarrow> string" where
  "JSON_stringify_count count =
     ''{'' @ [CHR 0x0A] @ ''  '' @ [CHR 0x22] @ ''count'' @ [CHR 0x22] @ '': '' @
     JSON_number count @ [CHR 0x0A] @ ''}''"

text \<open>
  \<^verbatim>\<open>JSON.stringify(count.toString())\<close>: the numeral between double quotes (the
  numeral of a number has no character that needs an escape).
\<close>

definition JSON_stringify_string :: "string \<Rightarrow> string" where
  "JSON_stringify_string s = [CHR 0x22] @ s @ [CHR 0x22]"

section \<open>The storage layer (lib/storage.js)\<close>

subsection \<open>The world the module runs in\<close>

text \<open>
  What the storage layer talks to is state of the model: the environment variables,
  the file \<^verbatim>\<open>counter.json\<close> of the working directory, and the durable store. The
  store is a service outside the repository, so nothing is assumed about it: the
  calls made to it are logged, and what a call settles with is a function of the log
  up to and including that call.
\<close>

record request =
  http_method :: string
  url :: string
  headers :: "(string \<times> string) list"
  body :: "string option"

record response =
  status :: nat
  statusText :: string
  response_body :: string

text \<open>\<^verbatim>\<open>response.ok\<close>: the status is in the range 200 to 299.\<close>

definition ok :: "response \<Rightarrow> bool" where
  "ok r = (200 \<le> status r \<and> status r \<le> 299)"

datatype call =
    FetchCall request
  | KvGet string
  | KvSet string string

text \<open>
  \<open>env\<close> is \<^verbatim>\<open>process.env\<close>. \<open>kv\<close> says whether the module variable \<^verbatim>\<open>kv\<close> holds
  the client of the \<^verbatim>\<open>@vercel/kv\<close> package; it is set once, when the module is
  loaded. \<open>counter_file\<close> is the text of \<^verbatim>\<open>counter.json\<close>, \<open>None\<close> when the file does not
  exist. \<open>read_fault\<close> and \<open>write_fault\<close> are the error codes with which reading and
  writing the file fail, if they do (no permission, read-only file system, ...); a
  write that fails is taken to leave the file as it was. \<open>fetch_result\<close>,
  \<open>kv_get_result\<close> (\<^verbatim>\<open>null\<close> for a key that is not there) and \<open>kv_set_result\<close> are
  the behaviour of the durable store.
\<close>

record world =
  env :: "string \<rightharpoonup> string"
  kv :: bool
  counter_file :: "string option"
  read_fault :: "string option"
  write_fault :: "string option"
  calls :: "call list"
  fetch_result :: "call list \<Rightarrow> js_error + response"
  kv_get_result :: "call list \<Rightarrow> js_error + json"
  kv_set_result :: "call list \<Rightarrow> js_error option"
  rateLimitMap :: "string \<rightharpoonup> int"

definition COUNTER_KEY :: string where
  "COUNTER_KEY = ''visit-counter''"

text \<open>
  An environment variable is a string or \<^verbatim>\<open>undefined\<close>; it is truthy when it is a
  string that is not empty. \<open>env_or\<close> is \<^verbatim>\<open>||\<close> on two of them, \<open>template\<close> the
  conversion of one inside a template literal.
\<close>

definition present :: "string option \<Rightarrow> bool" where
  "present v = (case v of None \<Rightarrow> False | Some s \<Rightarrow> s \<noteq> [])"

definition env_or :: "string option \<Rightarrow> string option \<Rightarrow> string option" where
  "env_or a b = (if present a then a else b)"

definition template :: "string option \<Rightarrow> string" where
  "template v = (case v of None \<Rightarrow> ''undefined'' | Some s \<Rightarrow> s)"

text \<open>
  The initialisation of \<^verbatim>\<open>kv\<close> when the module is loaded: \<open>installed\<close> says whether
  \<^verbatim>\<open>require('@vercel/kv')\<close> succeeds.
\<close>

definition load_kv :: "(string \<rightharpoonup> string) \<Rightarrow> bool \<Rightarrow> bool" where
  "load_kv e installed =
     (if present (e ''KV_REST_API_URL'') \<and> present (e ''KV_REST_API_TOKEN'') then installed
      else False)"

subsection \<open>Backend selection\<close>

definition hasKVConfig :: "(string \<rightharpoonup> string) \<Rightarrow> bool" where
  "hasKVConfig e =
     (if present (e ''KV_REST_API_URL'') \<and> present (e ''KV_REST_API_TOKEN'') then True
      else if present (e ''VERCEL_REST_API_URL'') \<and> present (e ''VERCEL_REST_API_TOKEN'') then True
      else False)"

subsection \<open>The durable store\<close>

text \<open>A call to the store: it is logged, and settles as the store decides.\<close>

definition log_call :: "call \<Rightarrow> world \<Rightarrow> world" where
  "log_call c w = w\<lparr>calls := calls w @ [c]\<rparr>"

definition readFromKVSDK :: "world \<Rightarrow> (js_error + number) \<times> world" where
  "readFromKVSDK w =
     (let w' = log_call (KvGet COUNTER_KEY) w in
      case kv_get_result w (calls w') of
        Inl error \<Rightarrow> (Inl error, w')
      | Inr v \<Rightarrow> (parseInt (or_else (Some v) (JStr ''0'')), w'))"

definition writeToKVSDK :: "number \<Rightarrow> world \<Rightarrow> (js_error + bool) \<times> world" where
  "writeToKVSDK count w =
     (let w' = log_call (KvSet COUNTER_KEY (number_toString count)) w in
      case kv_set_result w (calls w') of
        Some error \<Rightarrow> (Inl error, w')
      | None \<Rightarrow> (Inr True, w'))"

definition apiUrl :: "world \<Rightarrow> string option" where
  "apiUrl w = env_or (env w ''KV_REST_API_URL'') (env w ''VERCEL_REST_API_URL'')"

definition apiToken :: "world \<Rightarrow> string option" where
  "apiToken w = env_or (env w ''KV_REST_API_TOKEN'') (env w ''VERCEL_REST_API_TOKEN'')"

definition get_request :: "world \<Rightarrow> request" where
  "get_request w =
     \<lparr>http_method = ''GET'',
      url = template (apiUrl w) @ ''/get/'' @ COUNTER_KEY,
      headers = [(''Authorization'', ''Bearer '' @ template (apiToken w))],
      body = None\<rparr>"

definition set_request :: "number \<Rightarrow> world \<Rightarrow> request" where
  "set_request count w =
     \<lparr>http_method = ''POST'',
      url = template (apiUrl w) @ ''/set/'' @ COUNTER_KEY,
      headers = [(''Authorization'', ''Bearer '' @ template (apiToken w)),
                 (''Content-Type'', ''application/json'')],
      body = Some (JSON_stringify_string (number_toString count))\<rparr>"

text \<open>
  \<^verbatim>\<open>const value = data.result || data.value || '0'; return parseInt(value, 10);\<close>
\<close>

definition rest_value :: "json \<Rightarrow> js_error + number" where
  "rest_value data =
     (case get_property data ''result'' of
        Inl error \<Rightarrow> Inl error
      | Inr result \<Rightarrow>
          (case get_property data ''value'' of
             Inl error \<Rightarrow> Inl error
           | Inr v \<Rightarrow> parseInt (or_else result (or_else v (JStr ''0'')))))"

definition readFromKVREST :: "world \<Rightarrow> (js_error + number) \<times> world" where
  "readFromKVREST w =
     (let w' = log_call (FetchCall (get_request w)) w in
      case fetch_result w (calls w') of
        Inl error \<Rightarrow> (Inl error, w')
      | Inr response \<Rightarrow>
          if status response = 404 then (Inr (Num 0), w')
          else if \<not> ok response then
            (Inl (Error (''KV read failed: '' @ decimal (status response) @ '' '' @
                         statusText response)), w')
          else (case JSON_parse (response_body response) of
                  Inl error \<Rightarrow> (Inl error, w')
                | Inr data \<Rightarrow> (rest_value data, w')))"

definition writeToKVREST :: "number \<Rightarrow> world \<Rightarrow> (js_error + bool) \<times> world" where
  "writeToKVREST count w =
     (let w' = log_call (FetchCall (set_request count w)) w in
      case fetch_result w (calls w') of
        Inl error \<Rightarrow> (Inl error, w')
      | Inr response \<Rightarrow>
          if \<not> ok response then
            (Inl (Error (''KV write failed: '' @ decimal (status response) @ '' '' @
                         statusText response)), w')
          else (Inr True, w'))"

definition readFromKV :: "world \<Rightarrow> (js_error + number) \<times> world" where
  "readFromKV w = (if kv w then readFromKVSDK w else readFromKVREST w)"

definition writeToKV :: "number \<Rightarrow> world \<Rightarrow> (js_error + bool) \<times> world" where
  "writeToKV count w = (if kv w then writeToKVSDK count w else writeToKVREST count w)"

subsection \<open>The local file\<close>

text \<open>\<^verbatim>\<open>fs.readFile(COUNTER_FILE, 'utf8')\<close> and \<^verbatim>\<open>fs.writeFile(COUNTER_FILE, data, 'utf8')\<close>\<close>

definition readFile :: "world \<Rightarrow> js_error + string" where
  "readFile w =
     (case read_fault w of
        Some c \<Rightarrow> Inl (SystemError c)
      | None \<Rightarrow> (case counter_file w of None \<Rightarrow> Inl (SystemError ''ENOENT'') | Some data \<Rightarrow> Inr data))"

definition writeFile :: "string \<Rightarrow> world \<Rightarrow> js_error option \<times> world" where
  "writeFile data w =
     (case write_fault w of
        Some c \<Rightarrow> (Some (SystemError c), w)
      | None \<Rightarrow> (None, w\<lparr>counter_file := Some data\<rparr>))"

text \<open>The body of the \<^verbatim>\<open>try\<close> block of \<^verbatim>\<open>readFromFile\<close>.\<close>

definition readFromFile_try :: "world \<Rightarrow> js_error + number" where
  "readFromFile_try w =
     (case readFile w of
        Inl error \<Rightarrow> Inl error
      | Inr data \<Rightarrow>
          (case JSON_parse data of
             Inl error \<Rightarrow> Inl error
           | Inr json \<Rightarrow>
               (case get_property json ''count'' of
                  Inl error \<Rightarrow> Inl error
                | Inr c \<Rightarrow> parseInt (or_else c (JStr ''0'')))))"

text \<open>With its \<^verbatim>\<open>catch\<close>: a missing file is the count 0, anything else is thrown again.\<close>

definition readFromFile :: "world \<Rightarrow> js_error + number" where
  "readFromFile w =
     (case readFromFile_try w of
        Inl error \<Rightarrow> (if code error = Some ''ENOENT'' then Inr (Num 0) else Inl error)
      | Inr n \<Rightarrow> Inr n)"

definition writeToFile :: "number \<Rightarrow> world \<Rightarrow> (js_error + bool) \<times> world" where
  "writeToFile count w =
     (let data = JSON_stringify_count count in
      case writeFile data w of
        (Some error, w') \<Rightarrow> (Inl error, w')
      | (None, w') \<Rightarrow> (Inr True, w'))"

subsection \<open>The exported operations\<close>

definition getCount :: "world \<Rightarrow> (js_error + number) \<times> world" where
  "getCount w = (if hasKVConfig (env w) then readFromKV w else (readFromFile w, w))"

definition setCount :: "number \<Rightarrow> world \<Rightarrow> (js_error + bool) \<times> world" where
  "setCount count w = (if hasKVConfig (env w) then writeToKV count w else writeToFile count w)"

definition increment :: "world \<Rightarrow> (js_error + number) \<times> world" where
  "increment w =
     (case getCount w of
        (Inl error, w1) \<Rightarrow> (Inl error, w1)
      | (Inr current, w1) \<Rightarrow>
          (let next = plus_one current in
           case setCount next w1 of
             (Inl error, w2) \<Rightarrow> (Inl error, w2)
           | (Inr _, w2) \<Rightarrow> (Inr next, w2)))"

section \<open>Request admission control (api/counter.js)\<close>

text \<open>
  \<^verbatim>\<open>rateLimitMap\<close> is a process-wide \<^verbatim>\<open>Map\<close> from the client identifier to the
  reading of \<^verbatim>\<open>Date.now()\<close> at its last admitted request. Clock readings are
  integral numbers of milliseconds, far inside the range where the arithmetic of
  JavaScript numbers is exact, so they are modelled as \<^typ>\<open>int\<close>.
\<close>

type_synonym rate_limit_map = "string \<rightharpoonup> int"

definition RATE_LIMIT_WINDOW :: int where
  "RATE_LIMIT_WINDOW = 60 * 1000"

text \<open>
  \<^verbatim>\<open>!lastRequest\<close>: the negation of JavaScript truthiness on the result of
  \<^verbatim>\<open>rateLimitMap.get(ip)\<close>, which is \<^verbatim>\<open>undefined\<close> (here \<open>None\<close>) or a number.
  Both \<^verbatim>\<open>undefined\<close> and the number \<^verbatim>\<open>0\<close> are falsy.
\<close>

definition not_truthy :: "int option \<Rightarrow> bool" where
  "not_truthy v = (case v of None \<Rightarrow> True | Some n \<Rightarrow> n = 0)"

text \<open>
  \<^verbatim>\<open>shouldRateLimit(ip)\<close>, with the reading of the clock and the map passed
  explicitly; the result is the returned flag (\<open>True\<close> means rate limited) and the
  map after the call.
\<close>

definition shouldRateLimit :: "string \<Rightarrow> int \<Rightarrow> rate_limit_map \<Rightarrow> bool \<times> rate_limit_map" where
  "shouldRateLimit ip now m =
     (let lastRequest = m ip in
      if not_truthy lastRequest then (False, m(ip \<mapsto> now))
      else if now - the lastRequest < RATE_LIMIT_WINDOW then (True, m)
      else (False, m(ip \<mapsto> now)))"

section \<open>The request handler (api/counter.js)\<close>

text \<open>
  Of the incoming request the handler reads two headers and the address of the peer;
  each may be missing.
\<close>

record req =
  x_forwarded_for :: "string option"
  x_real_ip :: "string option"
  remoteAddress :: "string option"

text \<open>\<^verbatim>\<open>forwarded.split(',')[0].trim()\<close>\<close>

definition trim :: "string \<Rightarrow> string" where
  "trim s = rev (dropWhile isWhiteSpace (rev (dropWhile isWhiteSpace s)))"

definition first_entry :: "string \<Rightarrow> string" where
  "first_entry forwarded = trim (takeWhile (\<lambda>c. c \<noteq> CHR '','') forwarded)"

definition getClientIP :: "req \<Rightarrow> string" where
  "getClientIP r =
     (let forwarded = x_forwarded_for r; realIP = x_real_ip r in
      if present forwarded then first_entry (the forwarded)
      else if present realIP then the realIP
      else if present (remoteAddress r) then the (remoteAddress r)
      else ''unknown'')"

text \<open>
  Rendering is outside the core: \<open>Badge count\<close> stands for the SVG document that
  \<^verbatim>\<open>generateSVG(count)\<close> builds, in which the count appears as text.
\<close>

datatype svg = Badge number

record res =
  res_status :: nat
  res_headers :: "(string \<times> string) list"
  res_body :: svg

text \<open>The two answers of the handler: the badge of a count, and the error badge.\<close>

definition badge_response :: "number \<Rightarrow> res" where
  "badge_response count =
     \<lparr>res_status = 200,
      res_headers =
        [(''Content-Type'', ''image/svg+xml''),
         (''Cache-Control'', ''no-store, no-cache, must-revalidate, proxy-revalidate''),
         (''Pragma'', ''no-cache''),
         (''Expires'', ''0'')],
      res_body = Badge count\<rparr>"

definition error_response :: res where
  "error_response =
     \<lparr>res_status = 500,
      res_headers = [(''Content-Type'', ''image/svg+xml''), (''Cache-Control'', ''no-store'')],
      res_body = Badge (Num 0)\<rparr>"

text \<open>The end of the \<^verbatim>\<open>try\<close> block, and the \<^verbatim>\<open>catch\<close> block.\<close>

definition respond :: "js_error + number \<Rightarrow> res" where
  "respond outcome =
     (case outcome of Inr count \<Rightarrow> badge_response count | Inl error \<Rightarrow> error_response)"

text \<open>
  The handler, with the reading of the clock passed in. The admission decision is
  taken, and the admission map written, before the storage layer is called; an error
  of the storage layer is caught and answered with status 500 and the badge of 0.
\<close>

definition handler :: "req \<Rightarrow> int \<Rightarrow> world \<Rightarrow> res \<times> world" where
  "handler r now w =
     (let clientIP = getClientIP r;
          (isRateLimited, m) = shouldRateLimit clientIP now (rateLimitMap w);
          w1 = w\<lparr>rateLimitMap := m\<rparr>;
          (outcome, w2) = (if isRateLimited then getCount w1 else increment w1)
      in (respond outcome, w2))"

text \<open>
  A fresh deployment with the local file as backend: no configuration of a durable
  store, no counter file, an empty admission map, a file system without faults.
  (The store is never called here; its behaviour is fixed to a refusal.)
\<close>

definition fresh_world :: world where
  "fresh_world =
     \<lparr>env = Map.empty,
      kv = load_kv Map.empty False,
      counter_file = None,
      read_fault = None,
      write_fault = None,
      calls = [],
      fetch_result = (\<lambda>_. Inl (Rejected ''fetch failed'')),
      kv_get_result = (\<lambda>_. Inl (Rejected ''no client'')),
      kv_set_result = (\<lambda>_. Some (Rejected ''no client'')),
      rateLimitMap = Map.empty\<rparr>"

text \<open>
  A request whose peer address is \<open>ip\<close>, with no proxy headers, and the client
  \<^verbatim>\<open>1.2.3.4\<close>.
\<close>

definition request_from :: "string \<Rightarrow> req" where
  "request_from ip = \<lparr>x_forwarded_for = None, x_real_ip = None, remoteAddress = Some ip\<rparr>"

definition client :: req where
  "client = request_from ''1.2.3.4''"


section \<open>Callers and example worlds\<close>


text \<open>
  A deployment configured for the durable store through the standard pair of
  variables, without the client package, so that the REST path is taken; \<open>store\<close>
  is how the store answers.
\<close>

definition rest_world :: "(call list \<Rightarrow> js_error + response) \<Rightarrow> world" where
  "rest_world store =
     fresh_world
       \<lparr>env := [''KV_REST_API_URL'' \<mapsto> ''https://kv.example'', ''KV_REST_API_TOKEN'' \<mapsto> ''secret''],
        kv := load_kv [''KV_REST_API_URL'' \<mapsto> ''https://kv.example'',
                       ''KV_REST_API_TOKEN'' \<mapsto> ''secret''] False,
        fetch_result := store\<rparr>"

text \<open>A store that holds no value: it answers a read with 404 and accepts a write.\<close>

definition empty_store :: "call list \<Rightarrow> js_error + response" where
  "empty_store cs =
     (case rev cs of
        FetchCall rq # _ \<Rightarrow>
          if http_method rq = ''POST'' then Inr \<lparr>status = 200, statusText = ''OK'', response_body = ''{}''\<rparr>
          else Inr \<lparr>status = 404, statusText = ''Not Found'', response_body = ''{}''\<rparr>
      | _ \<Rightarrow> Inl (Rejected ''no client''))"


text \<open>A store that answers every call with status 200 and the given body.\<close>

definition answering :: "string \<Rightarrow> call list \<Rightarrow> js_error + response" where
  "answering b cs = Inr \<lparr>status = 200, statusText = ''OK'', response_body = b\<rparr>"

section \<open>Facts about the example worlds\<close>

lemma fresh_fields:
  "\<not> hasKVConfig (env fresh_world)" "read_fault fresh_world = None"
  "write_fault fresh_world = None" "counter_file fresh_world = None"
  by (simp_all add: fresh_world_def hasKVConfig_def present_def)

lemma rest_fields:
  "hasKVConfig (env (rest_world s))" "\<not> kv (rest_world s)" "fetch_result (rest_world s) = s"
  "calls (rest_world s) = []"
  by (simp_all add: rest_world_def fresh_world_def hasKVConfig_def present_def load_kv_def)

section \<open>Numerals and JSON text\<close>

text \<open>
  The decimal numeral of a natural number consists of digits, \<^verbatim>\<open>parseInt\<close> reads it
  back, and \<^verbatim>\<open>JSON.parse\<close> reads back the document that \<^verbatim>\<open>writeToFile\<close> writes.
\<close>

lemma of_char_digit_char: "d < 10 \<Longrightarrow> (of_char (digit_char d) :: nat) = 48 + d"
  by (simp add: digit_char_def)

lemma digit_value_digit_char: "d < 10 \<Longrightarrow> digit_value (digit_char d) = d"
  by (simp add: digit_value_def of_char_digit_char)

lemma isDigit_digit_char: "d < 10 \<Longrightarrow> isDigit (digit_char d)"
  by (simp add: isDigit_def of_char_digit_char)

lemma decimal_nonempty: "decimal n \<noteq> []"
  by (subst decimal.simps) simp

lemma decimal_all_digits: "c \<in> set (decimal n) \<Longrightarrow> isDigit c"
proof (induction n arbitrary: c rule: decimal.induct)
  case (1 n)
  show ?case
  proof (cases "n < 10")
    case True
    with "1.prems" show ?thesis
      by (subst (asm) decimal.simps) (simp add: isDigit_digit_char)
  next
    case False
    with "1.prems" have "c \<in> set (decimal (n div 10)) \<or> c = digit_char (n mod 10)"
      by (subst (asm) decimal.simps) auto
    with False "1.IH" show ?thesis
      by (auto simp: isDigit_digit_char)
  qed
qed

lemma digits_value_snoc:
  "digits_value acc (cs @ [c]) = digits_value acc cs * 10 + digit_value c"
  by (induction cs arbitrary: acc) simp_all

lemma digits_value_decimal: "digits_value 0 (decimal n) = n"
proof (induction n rule: decimal.induct)
  case (1 n)
  show ?case
  proof (cases "n < 10")
    case True
    then show ?thesis
      by (subst decimal.simps) (simp add: digit_value_digit_char)
  next
    case False
    with "1.IH" show ?thesis
      by (subst decimal.simps) (simp add: digits_value_snoc digit_value_digit_char)
  qed
qed

lemma hd_decimal_digit: "\<exists>c cs. decimal n = c # cs \<and> isDigit c"
  using decimal_nonempty [of n] decimal_all_digits [of _ n]
  by (cases "decimal n") auto

lemma isDigit_not_space: "isDigit c \<Longrightarrow> \<not> isWhiteSpace c"
  by (auto simp: isDigit_def isWhiteSpace_def)

lemma parseInt_string_digit_first:
  assumes "isDigit c"
  shows "parseInt_string (c # cs) = Num (int (digits_value 0 (takeWhile isDigit (c # cs))))"
proof -
  have sign: "c \<noteq> CHR ''-''" "c \<noteq> CHR ''+''"
    using assms by (auto simp: isDigit_def)
  show ?thesis
    using assms sign by (simp add: parseInt_string_def isDigit_not_space)
qed

lemma parseInt_string_decimal: "parseInt_string (decimal n) = Num (int n)"
proof -
  obtain c cs where d: "decimal n = c # cs" and c: "isDigit c"
    using hd_decimal_digit by blast
  have tw: "takeWhile isDigit (decimal n) = decimal n"
    using decimal_all_digits by (simp add: takeWhile_eq_all_conv)
  have "parseInt_string (decimal n) = Num (int (digits_value 0 (takeWhile isDigit (decimal n))))"
    unfolding d using c by (rule parseInt_string_digit_first)
  then show ?thesis
    by (simp add: tw digits_value_decimal)
qed


lemma digit_char_eq_iff: "d < 10 \<Longrightarrow> (digit_char d = c) = ((of_char c :: nat) = 48 + d)"
proof
  assume "d < 10" "digit_char d = c"
  then show "(of_char c :: nat) = 48 + d"
    using of_char_digit_char by auto
next
  assume d: "d < 10" and "(of_char c :: nat) = 48 + d"
  then have "(of_char c :: nat) = of_char (digit_char d)"
    by (simp add: of_char_digit_char)
  then show "digit_char d = c"
    by (simp add: of_char_eq_iff)
qed

lemma value_start_digit_char:
  "d < 10 \<Longrightarrow>
   value_start st (digit_char d) = (if d = 0 then Cfg AfterZero st else Cfg (InDigits False d) st)"
  by (simp add: value_start_def digit_char_eq_iff isDigit_digit_char digit_value_digit_char)

lemma not_JSONSpace_digit_char: "d < 10 \<Longrightarrow> \<not> isJSONSpace (digit_char d)"
  by (simp add: isJSONSpace_def of_char_digit_char)

lemma foldl_step_decimal:
  "foldl step (Cfg ExpectValue st) (decimal n) =
     (if n = 0 then Cfg AfterZero st else Cfg (InDigits False n) st)"
proof (induction n rule: decimal.induct)
  case (1 n)
  show ?case
  proof (cases "n < 10")
    case True
    then show ?thesis
      by (subst decimal.simps) (simp add: value_start_digit_char not_JSONSpace_digit_char)
  next
    case False
    then have "n div 10 \<noteq> 0" by simp
    with False "1.IH" show ?thesis
      by (subst decimal.simps) (simp add: isDigit_digit_char digit_value_digit_char)
  qed
qed

lemma JSON_parse_stringify_count:
  assumes "int n \<le> MAX_SAFE_INTEGER"
  shows "JSON_parse (JSON_stringify_count (Num (int n))) = Inr (JObj [(''count'', JNum (int n))])"
proof -
  define P where "P = ''{'' @ [CHR 0x0A] @ ''  '' @ [CHR 0x22] @ ''count'' @ [CHR 0x22] @ '': ''"
  define Q where "Q = [CHR 0x0A] @ ''}''"
  define st where "st = [ObjV [] ''count'']"
  have pre: "foldl step (Cfg ExpectValue []) P = Cfg ExpectValue st"
    by (simp add: P_def st_def value_start_def isJSONSpace_def)
  have num: "foldl step (Cfg ExpectValue st) (decimal n) =
      (if n = 0 then Cfg AfterZero st else Cfg (InDigits False n) st)"
    by (rule foldl_step_decimal)
  have post: "foldl step (if n = 0 then Cfg AfterZero st else Cfg (InDigits False n) st) Q =
      Cfg (Complete (JObj [(''count'', JNum (int n))])) []"
    using assms by (simp add: Q_def st_def isDigit_def isJSONSpace_def close_int_def)
  have shape: "JSON_stringify_count (Num (int n)) = P @ decimal n @ Q"
    by (simp add: JSON_stringify_count_def P_def Q_def)
  show ?thesis
    by (simp add: JSON_parse_def shape pre num post)
qed

lemma JSON_parse_stringify_count_NaN:
  "JSON_parse (JSON_stringify_count NaN) = Inr (JObj [(''count'', JNull)])"
  by (simp add: JSON_parse_def JSON_stringify_count_def value_start_def isJSONSpace_def isDigit_def)

section \<open>The local file as backend\<close>

lemma getCount_file_absent:
  assumes "\<not> hasKVConfig (env w)" "read_fault w = None" "counter_file w = None"
  shows "getCount w = (Inr (Num 0), w)"
  using assms by (simp add: getCount_def readFromFile_def readFromFile_try_def readFile_def)

lemma parseInt_count_member:
  "parseInt (or_else (Some (JNum (int n))) (JStr ''0'')) = Inr (Num (int n))"
proof (cases "n = 0")
  case True
  then show ?thesis
    by (simp add: parseInt_def parseInt_string_def isWhiteSpace_def isDigit_def digit_value_def)
next
  case False
  then show ?thesis
    by (simp add: parseInt_def parseInt_string_decimal)
qed

lemma readFromFile_count:
  assumes "read_fault w = None"
    and "counter_file w = Some (JSON_stringify_count (Num (int n)))"
    and "int n \<le> MAX_SAFE_INTEGER"
  shows "readFromFile w = Inr (Num (int n))"
proof -
  have "readFromFile_try w = parseInt (or_else (Some (JNum (int n))) (JStr ''0''))"
    using assms
    by (simp add: readFromFile_try_def readFile_def JSON_parse_stringify_count
        del: or_else.simps)
  then show ?thesis
    by (simp add: readFromFile_def parseInt_count_member del: or_else.simps)
qed

lemma getCount_file_count:
  assumes "\<not> hasKVConfig (env w)" "read_fault w = None"
    and "counter_file w = Some (JSON_stringify_count (Num (int n)))"
    and "int n \<le> MAX_SAFE_INTEGER"
  shows "getCount w = (Inr (Num (int n)), w)"
  using assms by (simp add: getCount_def readFromFile_count)

lemma setCount_file:
  assumes "\<not> hasKVConfig (env w)" "write_fault w = None"
  shows "setCount c w = (Inr True, w\<lparr>counter_file := Some (JSON_stringify_count c)\<rparr>)"
  using assms by (simp add: setCount_def writeToFile_def writeFile_def)


lemma increment_unfold:
  assumes "getCount w = (Inr c, w1)" and "setCount (plus_one c) w1 = (Inr b, w2)"
  shows "increment w = (Inr (plus_one c), w2)"
  using assms by (simp add: increment_def)

lemma increment_file_absent:
  assumes "\<not> hasKVConfig (env w)" "read_fault w = None" "write_fault w = None"
    and "counter_file w = None"
  shows "increment w = (Inr (Num 1), w\<lparr>counter_file := Some (JSON_stringify_count (Num 1))\<rparr>)"
proof -
  have g: "getCount w = (Inr (Num 0), w)"
    using assms by (simp add: getCount_file_absent)
  have s: "setCount (plus_one (Num 0)) w =
      (Inr True, w\<lparr>counter_file := Some (JSON_stringify_count (plus_one (Num 0)))\<rparr>)"
    using assms(1,3) by (rule setCount_file)
  show ?thesis
    using increment_unfold [OF g s] by simp
qed

lemma increment_file_count:
  assumes "\<not> hasKVConfig (env w)" "read_fault w = None" "write_fault w = None"
    and "counter_file w = Some (JSON_stringify_count (Num (int n)))"
    and "int n \<le> MAX_SAFE_INTEGER"
  shows "increment w =
    (Inr (Num (int (Suc n))), w\<lparr>counter_file := Some (JSON_stringify_count (Num (int (Suc n))))\<rparr>)"
proof -
  have g: "getCount w = (Inr (Num (int n)), w)"
    using assms by (simp add: getCount_file_count)
  have s: "setCount (plus_one (Num (int n))) w =
      (Inr True, w\<lparr>counter_file := Some (JSON_stringify_count (plus_one (Num (int n))))\<rparr>)"
    using assms(1,3) by (rule setCount_file)
  show ?thesis
    using increment_unfold [OF g s] by (simp add: add.commute)
qed





section \<open>The durable store as backend\<close>

lemma calls_log_call [simp]: "calls (log_call c w) = calls w @ [c]"
  by (simp add: log_call_def)

lemma log_call_fields [simp]:
  "env (log_call c w) = env w" "kv (log_call c w) = kv w"
  "counter_file (log_call c w) = counter_file w"
  "read_fault (log_call c w) = read_fault w" "write_fault (log_call c w) = write_fault w"
  "fetch_result (log_call c w) = fetch_result w"
  "kv_get_result (log_call c w) = kv_get_result w" "kv_set_result (log_call c w) = kv_set_result w"
  "rateLimitMap (log_call c w) = rateLimitMap w"
  by (simp_all add: log_call_def)

lemma request_log_call [simp]:
  "get_request (log_call c w) = get_request w" "set_request n (log_call c w) = set_request n w"
  by (simp_all add: get_request_def set_request_def apiUrl_def apiToken_def)

lemma getCount_rest_404:
  assumes "hasKVConfig (env w)" "\<not> kv w"
    and "fetch_result w (calls w @ [FetchCall (get_request w)]) = Inr r" "status r = 404"
  shows "getCount w = (Inr (Num 0), log_call (FetchCall (get_request w)) w)"
  using assms by (simp add: getCount_def readFromKV_def readFromKVREST_def Let_def)

lemma getCount_rest_rejected:
  assumes "hasKVConfig (env w)" "\<not> kv w"
    and "fetch_result w (calls w @ [FetchCall (get_request w)]) = Inl e"
  shows "getCount w = (Inl e, log_call (FetchCall (get_request w)) w)"
  using assms by (simp add: getCount_def readFromKV_def readFromKVREST_def Let_def)

lemma getCount_rest_status:
  assumes "hasKVConfig (env w)" "\<not> kv w"
    and "fetch_result w (calls w @ [FetchCall (get_request w)]) = Inr r"
    and "status r \<noteq> 404" "\<not> ok r"
  shows "getCount w =
    (Inl (Error (''KV read failed: '' @ decimal (status r) @ '' '' @ statusText r)),
     log_call (FetchCall (get_request w)) w)"
  using assms by (simp add: getCount_def readFromKV_def readFromKVREST_def Let_def)

lemma getCount_rest_body:
  assumes "hasKVConfig (env w)" "\<not> kv w"
    and "fetch_result w (calls w @ [FetchCall (get_request w)]) = Inr r"
    and "status r \<noteq> 404" "ok r"
  shows "getCount w =
    ((case JSON_parse (response_body r) of Inl e \<Rightarrow> Inl e | Inr data \<Rightarrow> rest_value data),
     log_call (FetchCall (get_request w)) w)"
  using assms
  by (simp add: getCount_def readFromKV_def readFromKVREST_def Let_def split: sum.splits)

lemma getCount_sdk:
  assumes "hasKVConfig (env w)" "kv w"
  shows "getCount w =
    ((case kv_get_result w (calls w @ [KvGet COUNTER_KEY]) of
        Inl e \<Rightarrow> Inl e | Inr v \<Rightarrow> parseInt (or_else (Some v) (JStr ''0''))),
     log_call (KvGet COUNTER_KEY) w)"
  using assms
  by (simp add: getCount_def readFromKV_def readFromKVSDK_def Let_def split: sum.splits del: or_else.simps)

lemma parseInt_default: "parseInt (JStr ''0'') = Inr (Num 0)"
  by (simp add: parseInt_def parseInt_string_def isWhiteSpace_def isDigit_def digit_value_def)


section \<open>The route and the state after a call\<close>

lemma hasKVConfig_iff:
  "hasKVConfig e \<longleftrightarrow>
     (present (e ''KV_REST_API_URL'') \<and> present (e ''KV_REST_API_TOKEN'')) \<or>
     (present (e ''VERCEL_REST_API_URL'') \<and> present (e ''VERCEL_REST_API_TOKEN''))"
  by (simp add: hasKVConfig_def)

lemma readFromKV_world:
  "snd (readFromKV w) = log_call (if kv w then KvGet COUNTER_KEY else FetchCall (get_request w)) w"
  by (simp add: readFromKV_def readFromKVSDK_def readFromKVREST_def Let_def
      split: sum.splits)

lemma writeToKV_world:
  "snd (writeToKV n w) =
     log_call (if kv w then KvSet COUNTER_KEY (number_toString n)
               else FetchCall (set_request n w)) w"
  by (simp add: writeToKV_def writeToKVSDK_def writeToKVREST_def Let_def
      split: sum.splits option.splits)

lemma writeToFile_world:
  "snd (writeToFile n w) =
     (if write_fault w = None then w\<lparr>counter_file := Some (JSON_stringify_count n)\<rparr> else w)"
  by (simp add: writeToFile_def writeFile_def split: option.splits)

lemma getCount_world:
  "snd (getCount w) =
     (if hasKVConfig (env w)
      then log_call (if kv w then KvGet COUNTER_KEY else FetchCall (get_request w)) w
      else w)"
  by (simp add: getCount_def readFromKV_world)

lemma setCount_world:
  "snd (setCount n w) =
     (if hasKVConfig (env w)
      then log_call (if kv w then KvSet COUNTER_KEY (number_toString n)
                     else FetchCall (set_request n w)) w
      else if write_fault w = None then w\<lparr>counter_file := Some (JSON_stringify_count n)\<rparr>
      else w)"
  by (simp add: setCount_def writeToKV_world writeToFile_world)

section \<open>The round trip\<close>






section \<open>The zero default\<close>

text \<open>
  Claim C7. With no stored value \<^verbatim>\<open>getCount()\<close> returns 0, and this is a result, not
  an error: for the local file when the file does not exist (any other failure to
  read it, with a code different from \<^verbatim>\<open>ENOENT\<close>, is thrown), for the durable store
  over REST when the get endpoint answers 404, and through the client when it
  returns \<^verbatim>\<open>null\<close>.
\<close>

theorem absent_value_is_zero:
  "(\<not> hasKVConfig (env w) \<longrightarrow> read_fault w = None \<longrightarrow> counter_file w = None \<longrightarrow>
      getCount w = (Inr (Num 0), w)) \<and>
   (\<not> hasKVConfig (env w) \<longrightarrow> read_fault w = Some c \<longrightarrow> c \<noteq> ''ENOENT'' \<longrightarrow>
      getCount w = (Inl (SystemError c), w)) \<and>
   (hasKVConfig (env w) \<longrightarrow> \<not> kv w \<longrightarrow>
      fetch_result w (calls w @ [FetchCall (get_request w)]) = Inr r \<longrightarrow> status r = 404 \<longrightarrow>
      fst (getCount w) = Inr (Num 0)) \<and>
   (hasKVConfig (env w) \<longrightarrow> kv w \<longrightarrow>
      kv_get_result w (calls w @ [KvGet COUNTER_KEY]) = Inr JNull \<longrightarrow>
      fst (getCount w) = Inr (Num 0))"
proof (intro conjI impI)
  assume "\<not> hasKVConfig (env w)" "read_fault w = None" "counter_file w = None"
  then show "getCount w = (Inr (Num 0), w)"
    by (rule getCount_file_absent)
next
  assume "\<not> hasKVConfig (env w)" "read_fault w = Some c" "c \<noteq> ''ENOENT''"
  then show "getCount w = (Inl (SystemError c), w)"
    by (simp add: getCount_def readFromFile_def readFromFile_try_def readFile_def)
next
  assume "hasKVConfig (env w)" "\<not> kv w"
    "fetch_result w (calls w @ [FetchCall (get_request w)]) = Inr r" "status r = 404"
  then show "fst (getCount w) = Inr (Num 0)"
    by (simp add: getCount_rest_404)
next
  assume "hasKVConfig (env w)" "kv w"
    "kv_get_result w (calls w @ [KvGet COUNTER_KEY]) = Inr JNull"
  then show "fst (getCount w) = Inr (Num 0)"
    by (simp add: getCount_sdk parseInt_default)
qed

theorem absent_value_is_zero_witness:
  "getCount fresh_world = (Inr (Num 0), fresh_world) \<and>
   getCount (fresh_world\<lparr>read_fault := Some ''EACCES''\<rparr>) =
     (Inl (SystemError ''EACCES''), fresh_world\<lparr>read_fault := Some ''EACCES''\<rparr>) \<and>
   fst (getCount (rest_world empty_store)) = Inr (Num 0) \<and>
   fst (getCount (fresh_world\<lparr>env := [''KV_REST_API_URL'' \<mapsto> ''https://kv.example'',
                                     ''KV_REST_API_TOKEN'' \<mapsto> ''secret''],
                             kv := True, kv_get_result := (\<lambda>_. Inr JNull)\<rparr>)) = Inr (Num 0)"
proof -
  let ?f = "fresh_world\<lparr>read_fault := Some ''EACCES''\<rparr>"
  let ?k = "fresh_world\<lparr>env := [''KV_REST_API_URL'' \<mapsto> ''https://kv.example'',
                                     ''KV_REST_API_TOKEN'' \<mapsto> ''secret''],
                             kv := True, kv_get_result := (\<lambda>_. Inr JNull)\<rparr>"
  let ?r = "\<lparr>status = 404, statusText = ''Not Found'', response_body = ''{}''\<rparr>"
  have f: "\<not> hasKVConfig (env ?f)" "read_fault ?f = Some ''EACCES''" "''EACCES'' \<noteq> ''ENOENT''"
    by (simp_all add: fresh_fields)
  have r: "fetch_result (rest_world empty_store)
      (calls (rest_world empty_store) @ [FetchCall (get_request (rest_world empty_store))]) = Inr ?r"
      "status ?r = 404"
    by (simp_all add: rest_fields empty_store_def get_request_def)
  have k: "hasKVConfig (env ?k)" "kv ?k" "kv_get_result ?k (calls ?k @ [KvGet COUNTER_KEY]) = Inr JNull"
    by (simp_all add: hasKVConfig_def present_def)
  have 1: "getCount fresh_world = (Inr (Num 0), fresh_world)"
    by (rule absent_value_is_zero [THEN conjunct1, rule_format, OF fresh_fields(1,2,4)])
  have 2: "getCount ?f = (Inl (SystemError ''EACCES''), ?f)"
    by (rule absent_value_is_zero [THEN conjunct2, THEN conjunct1, rule_format, OF f])
  have 3: "fst (getCount (rest_world empty_store)) = Inr (Num 0)"
    by (rule absent_value_is_zero [THEN conjunct2, THEN conjunct2, THEN conjunct1, rule_format,
          OF rest_fields(1,2) r])
  have 4: "fst (getCount ?k) = Inr (Num 0)"
    by (rule absent_value_is_zero [THEN conjunct2, THEN conjunct2, THEN conjunct2, rule_format,
          OF k])
  from 1 2 3 4 show ?thesis by (intro conjI)
qed

section \<open>The increment law\<close>





section \<open>Backend selection\<close>

text \<open>
  Claim C9. Each call of \<^verbatim>\<open>getCount()\<close> and \<^verbatim>\<open>setCount()\<close> decides its route from
  the environment of the world it is called in, and from nothing else: it goes to the
  durable store exactly when both variables of the standard pair, or both of the
  legacy pair, are set to a string that is not empty, and to the local file otherwise.
  Going to the store is visible as a call added to the log of the store; going to the
  file leaves the log as it is, and a write to the store leaves the file as it is.
  A second call made after the environment has changed follows the new environment.
\<close>

theorem backend_selection:
  "(hasKVConfig e \<longleftrightarrow>
      (present (e ''KV_REST_API_URL'') \<and> present (e ''KV_REST_API_TOKEN'')) \<or>
      (present (e ''VERCEL_REST_API_URL'') \<and> present (e ''VERCEL_REST_API_TOKEN''))) \<and>
   getCount w = (if hasKVConfig (env w) then readFromKV w else (readFromFile w, w)) \<and>
   setCount n w = (if hasKVConfig (env w) then writeToKV n w else writeToFile n w) \<and>
   (calls (snd (getCount w)) \<noteq> calls w \<longleftrightarrow> hasKVConfig (env w)) \<and>
   (calls (snd (setCount n w)) \<noteq> calls w \<longleftrightarrow> hasKVConfig (env w)) \<and>
   (hasKVConfig (env w) \<longrightarrow> counter_file (snd (setCount n w)) = counter_file w) \<and>
   (calls (snd (getCount ((snd (getCount w))\<lparr>env := e\<rparr>))) \<noteq> calls (snd (getCount w))
      \<longleftrightarrow> hasKVConfig e) \<and>
   (calls (snd (setCount n ((snd (setCount n w))\<lparr>env := e\<rparr>))) \<noteq> calls (snd (setCount n w))
      \<longleftrightarrow> hasKVConfig e)"
proof (intro conjI)
  show "hasKVConfig e \<longleftrightarrow>
      (present (e ''KV_REST_API_URL'') \<and> present (e ''KV_REST_API_TOKEN'')) \<or>
      (present (e ''VERCEL_REST_API_URL'') \<and> present (e ''VERCEL_REST_API_TOKEN''))"
    by (rule hasKVConfig_iff)
  show "getCount w = (if hasKVConfig (env w) then readFromKV w else (readFromFile w, w))"
    by (simp add: getCount_def)
  show "setCount n w = (if hasKVConfig (env w) then writeToKV n w else writeToFile n w)"
    by (simp add: setCount_def)
  show "calls (snd (getCount w)) \<noteq> calls w \<longleftrightarrow> hasKVConfig (env w)"
    by (simp add: getCount_world)
  show "calls (snd (setCount n w)) \<noteq> calls w \<longleftrightarrow> hasKVConfig (env w)"
    by (simp add: setCount_world)
  show "hasKVConfig (env w) \<longrightarrow> counter_file (snd (setCount n w)) = counter_file w"
    by (simp add: setCount_world)
  show "calls (snd (getCount ((snd (getCount w))\<lparr>env := e\<rparr>))) \<noteq> calls (snd (getCount w))
      \<longleftrightarrow> hasKVConfig e"
    by (simp add: getCount_world [of "(snd (getCount w))\<lparr>env := e\<rparr>"])
  show "calls (snd (setCount n ((snd (setCount n w))\<lparr>env := e\<rparr>))) \<noteq> calls (snd (setCount n w))
      \<longleftrightarrow> hasKVConfig e"
    by (simp add: setCount_world [of n "(snd (setCount n w))\<lparr>env := e\<rparr>"])
qed


theorem backend_selection_witness:
  "hasKVConfig [''VERCEL_REST_API_URL'' \<mapsto> ''https://kv.example'', ''VERCEL_REST_API_TOKEN'' \<mapsto> ''secret''] \<and>
   \<not> hasKVConfig [''KV_REST_API_URL'' \<mapsto> ''https://kv.example'', ''VERCEL_REST_API_TOKEN'' \<mapsto> ''secret''] \<and>
   calls (snd (getCount fresh_world)) = calls fresh_world \<and>
   calls (snd (getCount (rest_world empty_store))) \<noteq> calls (rest_world empty_store) \<and>
   calls (snd (setCount (Num 5) fresh_world)) = calls fresh_world \<and>
   counter_file (snd (setCount (Num 5) (rest_world empty_store))) = counter_file (rest_world empty_store) \<and>
   calls (snd (getCount ((snd (getCount fresh_world))
       \<lparr>env := [''VERCEL_REST_API_URL'' \<mapsto> ''https://kv.example'',
                 ''VERCEL_REST_API_TOKEN'' \<mapsto> ''secret'']\<rparr>))) \<noteq> calls (snd (getCount fresh_world))"
proof -
  let ?legacy = "[''VERCEL_REST_API_URL'' \<mapsto> ''https://kv.example'', ''VERCEL_REST_API_TOKEN'' \<mapsto> ''secret'']"
  let ?mixed = "[''KV_REST_API_URL'' \<mapsto> ''https://kv.example'', ''VERCEL_REST_API_TOKEN'' \<mapsto> ''secret'']"
  let ?s = "rest_world empty_store"
  have 1: "hasKVConfig ?legacy"
    using backend_selection [of ?legacy, THEN conjunct1] by (simp add: present_def)
  have 2: "\<not> hasKVConfig ?mixed"
    using backend_selection [of ?mixed, THEN conjunct1] by (simp add: present_def)
  have 3: "calls (snd (getCount fresh_world)) = calls fresh_world"
    using backend_selection [of _ fresh_world, THEN conjunct2, THEN conjunct2, THEN conjunct2,
        THEN conjunct1] fresh_fields(1) by simp
  have 4: "calls (snd (getCount ?s)) \<noteq> calls ?s"
    using backend_selection [of _ ?s, THEN conjunct2, THEN conjunct2, THEN conjunct2,
        THEN conjunct1] rest_fields(1) by simp
  have 5: "calls (snd (setCount (Num 5) fresh_world)) = calls fresh_world"
    using backend_selection [of _ fresh_world "Num 5", THEN conjunct2, THEN conjunct2,
        THEN conjunct2, THEN conjunct2, THEN conjunct1] fresh_fields(1) by simp
  have 6: "counter_file (snd (setCount (Num 5) ?s)) = counter_file ?s"
    using backend_selection [of _ ?s "Num 5", THEN conjunct2, THEN conjunct2,
        THEN conjunct2, THEN conjunct2, THEN conjunct2, THEN conjunct1] rest_fields(1) by simp
  have 7: "calls (snd (getCount ((snd (getCount fresh_world))\<lparr>env := ?legacy\<rparr>))) \<noteq>
      calls (snd (getCount fresh_world))"
    using backend_selection [of ?legacy fresh_world, THEN conjunct2, THEN conjunct2,
        THEN conjunct2, THEN conjunct2, THEN conjunct2, THEN conjunct2, THEN conjunct1] 1
    by simp
  from 1 2 3 4 5 6 7 show ?thesis by (intro conjI)
qed

section \<open>Malformed state\<close>





section \<open>Malformed answers of the store\<close>

lemma rest_value_no_members:
  assumes "''result'' \<notin> fst ` set members" "''value'' \<notin> fst ` set members"
  shows "rest_value (JObj members) = Inr (Num 0)"
proof -
  have "map_of (rev members) ''result'' = None" "map_of (rev members) ''value'' = None"
    using assms by (simp_all add: map_of_eq_None_iff)
  then show ?thesis
    by (simp add: rest_value_def parseInt_default)
qed

text \<open>
  Claim C2, as amended. On the durable store over REST, \<^verbatim>\<open>getCount()\<close> fails, with
  the error handed to the caller and no value in its place, when the request is
  rejected, when the status is neither 404 nor in the range 200 to 299, when the body
  of a successful answer is not valid JSON, and when it is the JSON value \<^verbatim>\<open>null\<close>.
  The status 404 gives 0. A successful answer whose body is a JSON object with neither
  a \<^verbatim>\<open>result\<close> nor a \<^verbatim>\<open>value\<close> member is not an error either: the default of
  \<^verbatim>\<open>data.result || data.value || '0'\<close> applies and the result is 0.
\<close>

theorem rest_read_errors_propagate:
  assumes "hasKVConfig (env w)" and "\<not> kv w"
  shows
    "(fetch_result w (calls w @ [FetchCall (get_request w)]) = Inl e \<longrightarrow>
        fst (getCount w) = Inl e) \<and>
     (fetch_result w (calls w @ [FetchCall (get_request w)]) = Inr r \<longrightarrow>
        (status r = 404 \<longrightarrow> fst (getCount w) = Inr (Num 0)) \<and>
        (status r \<noteq> 404 \<longrightarrow> \<not> ok r \<longrightarrow>
           fst (getCount w) =
             Inl (Error (''KV read failed: '' @ decimal (status r) @ '' '' @ statusText r))) \<and>
        (ok r \<longrightarrow> JSON_parse (response_body r) = Inl SyntaxError \<longrightarrow>
           fst (getCount w) = Inl SyntaxError) \<and>
        (ok r \<longrightarrow> JSON_parse (response_body r) = Inr JNull \<longrightarrow>
           fst (getCount w) = Inl TypeError) \<and>
        (ok r \<longrightarrow> JSON_parse (response_body r) = Inr (JObj members) \<longrightarrow>
         ''result'' \<notin> fst ` set members \<longrightarrow> ''value'' \<notin> fst ` set members \<longrightarrow>
           fst (getCount w) = Inr (Num 0)))"
proof (intro conjI impI)
  assume "fetch_result w (calls w @ [FetchCall (get_request w)]) = Inl e"
  then show "fst (getCount w) = Inl e"
    by (simp add: getCount_rest_rejected [OF assms])
next
  assume "fetch_result w (calls w @ [FetchCall (get_request w)]) = Inr r" "status r = 404"
  then show "fst (getCount w) = Inr (Num 0)"
    by (simp add: getCount_rest_404 [OF assms])
next
  assume "fetch_result w (calls w @ [FetchCall (get_request w)]) = Inr r"
    "status r \<noteq> 404" "\<not> ok r"
  then show "fst (getCount w) =
      Inl (Error (''KV read failed: '' @ decimal (status r) @ '' '' @ statusText r))"
    by (simp add: getCount_rest_status [OF assms])
next
  assume r: "fetch_result w (calls w @ [FetchCall (get_request w)]) = Inr r" "ok r"
    and p: "JSON_parse (response_body r) = Inl SyntaxError"
  from r have "status r \<noteq> 404" by (auto simp: ok_def)
  with p r show "fst (getCount w) = Inl SyntaxError"
    by (simp add: getCount_rest_body [OF assms])
next
  assume r: "fetch_result w (calls w @ [FetchCall (get_request w)]) = Inr r" "ok r"
    and p: "JSON_parse (response_body r) = Inr JNull"
  from r have "status r \<noteq> 404" by (auto simp: ok_def)
  with p r show "fst (getCount w) = Inl TypeError"
    by (simp add: getCount_rest_body [OF assms] rest_value_def)
next
  assume r: "fetch_result w (calls w @ [FetchCall (get_request w)]) = Inr r" "ok r"
    and p: "JSON_parse (response_body r) = Inr (JObj members)"
    and m: "''result'' \<notin> fst ` set members" "''value'' \<notin> fst ` set members"
  from r have "status r \<noteq> 404" by (auto simp: ok_def)
  with p r m show "fst (getCount w) = Inr (Num 0)"
    by (simp add: getCount_rest_body [OF assms] rest_value_no_members)
qed

theorem rest_read_errors_propagate_witness:
  "fst (getCount (rest_world (\<lambda>_. Inl (Rejected ''fetch failed'')))) = Inl (Rejected ''fetch failed'') \<and>
   fst (getCount (rest_world empty_store)) = Inr (Num 0) \<and>
   fst (getCount (rest_world (\<lambda>_. Inr \<lparr>status = 500, statusText = ''Internal Server Error'',
                                         response_body = []\<rparr>))) =
     Inl (Error ''KV read failed: 500 Internal Server Error'') \<and>
   fst (getCount (rest_world (answering ''<html>''))) = Inl SyntaxError \<and>
   fst (getCount (rest_world (answering ''null''))) = Inl TypeError \<and>
   fst (getCount (rest_world (answering ''{}''))) = Inr (Num 0)"
proof -
  let ?down = "\<lambda>_ :: call list. Inl (Rejected ''fetch failed'') :: js_error + response"
  let ?r500 = "\<lparr>status = 500, statusText = ''Internal Server Error'', response_body = []\<rparr>"
  let ?r404 = "\<lparr>status = 404, statusText = ''Not Found'', response_body = ''{}''\<rparr>"
  let ?ok = "\<lambda>b. \<lparr>status = 200, statusText = ''OK'', response_body = b\<rparr>"
  note c = rest_fields(1,2)
  have f: "\<And>s. fetch_result (rest_world s)
      (calls (rest_world s) @ [FetchCall (get_request (rest_world s))]) =
      s [FetchCall (get_request (rest_world s))]"
    by (simp add: rest_fields)
  have 1: "fst (getCount (rest_world ?down)) = Inl (Rejected ''fetch failed'')"
    by (rule rest_read_errors_propagate [OF c, THEN conjunct1, rule_format]) (simp add: f)
  have 2: "fst (getCount (rest_world empty_store)) = Inr (Num 0)"
    by (rule rest_read_errors_propagate [OF c, THEN conjunct2, rule_format, THEN conjunct1,
          rule_format, where r = ?r404])
      (simp_all add: rest_fields empty_store_def get_request_def)
  have "fst (getCount (rest_world (\<lambda>_. Inr ?r500))) =
      Inl (Error (''KV read failed: '' @ decimal (status ?r500) @ '' '' @ statusText ?r500))"
    by (rule rest_read_errors_propagate [OF c, THEN conjunct2, rule_format, THEN conjunct2,
          THEN conjunct1, rule_format])
      (simp_all add: f ok_def)
  moreover have "decimal 500 = ''500''"
    by code_simp
  ultimately have 3: "fst (getCount (rest_world (\<lambda>_. Inr ?r500))) =
      Inl (Error ''KV read failed: 500 Internal Server Error'')"
    by simp
  have 4: "fst (getCount (rest_world (answering ''<html>''))) = Inl SyntaxError"
  proof (rule rest_read_errors_propagate [OF c, THEN conjunct2, rule_format, THEN conjunct2,
          THEN conjunct2, THEN conjunct1, rule_format, where r = "?ok ''<html>''"])
    show "JSON_parse (response_body (?ok ''<html>'')) = Inl SyntaxError"
      by code_simp
  qed (simp_all add: f answering_def ok_def)
  have 5: "fst (getCount (rest_world (answering ''null''))) = Inl TypeError"
  proof (rule rest_read_errors_propagate [OF c, THEN conjunct2, rule_format, THEN conjunct2,
          THEN conjunct2, THEN conjunct2, THEN conjunct1, rule_format, where r = "?ok ''null''"])
    show "JSON_parse (response_body (?ok ''null'')) = Inr JNull"
      by code_simp
  qed (simp_all add: f answering_def ok_def)
  have 6: "fst (getCount (rest_world (answering ''{}''))) = Inr (Num 0)"
  proof (rule rest_read_errors_propagate [OF c, THEN conjunct2, rule_format, THEN conjunct2,
          THEN conjunct2, THEN conjunct2, THEN conjunct2, rule_format,
          where r = "?ok ''{}''" and members = "[]"])
    show "JSON_parse (response_body (?ok ''{}'')) = Inr (JObj [])"
      by code_simp
  qed (simp_all add: f answering_def ok_def)
  from 1 2 3 4 5 6 show ?thesis by (intro conjI)
qed

text \<open>
  Claim C2 as it was stated fails: the store answers with status 200 and the body
  \<^verbatim>\<open>{}\<close>, which does not contain the counter, and \<^verbatim>\<open>getCount()\<close> returns 0.
\<close>

theorem malformed_response_counterexample:
  "fst (getCount (rest_world (answering ''{}''))) = Inr (Num 0)"
  by code_simp

section \<open>Properties of admission control\<close>

lemma shouldRateLimit_suppress_iff:
  "fst (shouldRateLimit ip now m) \<longleftrightarrow>
     (\<exists>t0. m ip = Some t0 \<and> t0 \<noteq> 0 \<and> now - t0 < RATE_LIMIT_WINDOW)"
  by (auto simp: shouldRateLimit_def not_truthy_def Let_def split: option.splits)

lemma shouldRateLimit_suppress_frame:
  "fst (shouldRateLimit ip now m) \<Longrightarrow> snd (shouldRateLimit ip now m) = m"
  by (auto simp: shouldRateLimit_def not_truthy_def Let_def split: option.splits if_splits)

lemma shouldRateLimit_admit_record:
  "\<not> fst (shouldRateLimit ip now m) \<Longrightarrow> snd (shouldRateLimit ip now m) = m(ip \<mapsto> now)"
  by (auto simp: shouldRateLimit_def not_truthy_def Let_def split: option.splits if_splits)

text \<open>
  Claim C5. A suppressed call returns the admission map it was given, so the stored
  timestamp is only ever written by an admitted call. In particular, once an
  identifier has been admitted at \<open>t0\<close>, if the call 30 s later is suppressed, the
  call 59 s after \<open>t0\<close> is suppressed too: the window is still anchored at \<open>t0\<close>.
\<close>

theorem suppress_leaves_record_unchanged:
  "(shouldRateLimit ip now m = (True, m') \<longrightarrow> m' = m) \<and>
   (shouldRateLimit ip t0 m0 = (False, m1) \<longrightarrow>
    shouldRateLimit ip (t0 + 30000) m1 = (True, m2) \<longrightarrow>
      m2 = m1 \<and> m2 ip = Some t0 \<and> fst (shouldRateLimit ip (t0 + 59000) m2))"
proof (intro conjI impI)
  assume "shouldRateLimit ip now m = (True, m')"
  then show "m' = m"
    using shouldRateLimit_suppress_frame [of ip now m] by simp
next
  assume a: "shouldRateLimit ip t0 m0 = (False, m1)"
    and s: "shouldRateLimit ip (t0 + 30000) m1 = (True, m2)"
  from a have m1: "m1 = m0(ip \<mapsto> t0)"
    using shouldRateLimit_admit_record [of ip t0 m0] by simp
  from s show m2: "m2 = m1"
    using shouldRateLimit_suppress_frame [of ip "t0 + 30000" m1] by simp
  from m1 m2 show "m2 ip = Some t0" by simp
  from s have "fst (shouldRateLimit ip (t0 + 30000) m1)" by simp
  then have "t0 \<noteq> 0"
    using m1 by (auto simp: shouldRateLimit_suppress_iff)
  then show "fst (shouldRateLimit ip (t0 + 59000) m2)"
    using m1 m2 by (simp add: shouldRateLimit_suppress_iff RATE_LIMIT_WINDOW_def)
qed

theorem suppress_leaves_record_unchanged_witness:
  "shouldRateLimit ''1.2.3.4'' 1000 Map.empty = (False, [''1.2.3.4'' \<mapsto> 1000]) \<and>
   shouldRateLimit ''1.2.3.4'' (1000 + 30000) [''1.2.3.4'' \<mapsto> 1000] = (True, [''1.2.3.4'' \<mapsto> 1000]) \<and>
   fst (shouldRateLimit ''1.2.3.4'' (1000 + 59000) [''1.2.3.4'' \<mapsto> 1000])"
proof -
  have a: "shouldRateLimit ''1.2.3.4'' 1000 Map.empty = (False, [''1.2.3.4'' \<mapsto> 1000])"
    by (simp add: shouldRateLimit_def not_truthy_def)
  have s: "shouldRateLimit ''1.2.3.4'' (1000 + 30000) [''1.2.3.4'' \<mapsto> 1000] = (True, [''1.2.3.4'' \<mapsto> 1000])"
    by (simp add: shouldRateLimit_def not_truthy_def RATE_LIMIT_WINDOW_def)
  from suppress_leaves_record_unchanged
    [of "''1.2.3.4''" 31000 "[''1.2.3.4'' \<mapsto> 1000]" "[''1.2.3.4'' \<mapsto> 1000]" 1000 Map.empty
        "[''1.2.3.4'' \<mapsto> 1000]" "[''1.2.3.4'' \<mapsto> 1000]"]
  show ?thesis using a s by simp
qed

lemma admission_first_request:
  "m ip = None \<Longrightarrow> shouldRateLimit ip now m = (False, m(ip \<mapsto> now))"
  by (simp add: shouldRateLimit_def not_truthy_def)

lemma admission_nonzero_record:
  assumes "m ip = Some t0" and "t0 \<noteq> 0"
  shows "shouldRateLimit ip now m =
    (if now - t0 < 60000 then (True, m) else (False, m(ip \<mapsto> now)))"
  using assms by (simp add: shouldRateLimit_def not_truthy_def RATE_LIMIT_WINDOW_def)

lemma admission_zero_record:
  "m ip = Some 0 \<Longrightarrow> shouldRateLimit ip now m = (False, m(ip \<mapsto> now))"
  by (simp add: shouldRateLimit_def not_truthy_def)


section \<open>The handler\<close>

lemma getCount_keeps_map: "rateLimitMap (snd (getCount w)) = rateLimitMap w"
  by (simp add: getCount_world)

lemma setCount_keeps_map: "rateLimitMap (snd (setCount n w)) = rateLimitMap w"
  by (simp add: setCount_world)

lemma increment_keeps_map: "rateLimitMap (snd (increment w)) = rateLimitMap w"
proof (cases "getCount w")
  case (Pair g w1)
  then have w1: "rateLimitMap w1 = rateLimitMap w"
    using getCount_keeps_map [of w] by simp
  show ?thesis
  proof (cases g)
    case (Inl e)
    with Pair w1 show ?thesis by (simp add: increment_def)
  next
    case (Inr c)
    obtain s w2 where s: "setCount (plus_one c) w1 = (s, w2)"
      by (cases "setCount (plus_one c) w1")
    then have "rateLimitMap w2 = rateLimitMap w1"
      using setCount_keeps_map [of "plus_one c" w1] by simp
    with Pair Inr s w1 show ?thesis
      by (cases s) (simp_all add: increment_def)
  qed
qed

lemma handler_suppressed:
  assumes "fst (shouldRateLimit (getClientIP r) now (rateLimitMap w))"
  shows "handler r now w = (respond (fst (getCount w)), snd (getCount w))"
proof -
  have "shouldRateLimit (getClientIP r) now (rateLimitMap w) = (True, rateLimitMap w)"
    using assms shouldRateLimit_suppress_frame [OF assms] by (simp add: prod_eq_iff)
  then show ?thesis
    by (simp add: handler_def respond_def split_beta Let_def)
qed

lemma handler_admitted:
  assumes "\<not> fst (shouldRateLimit (getClientIP r) now (rateLimitMap w))"
  shows "handler r now w =
    (respond (fst (increment (w\<lparr>rateLimitMap := (rateLimitMap w)(getClientIP r \<mapsto> now)\<rparr>))),
     snd (increment (w\<lparr>rateLimitMap := (rateLimitMap w)(getClientIP r \<mapsto> now)\<rparr>)))"
proof -
  have "shouldRateLimit (getClientIP r) now (rateLimitMap w) =
      (False, (rateLimitMap w)(getClientIP r \<mapsto> now))"
    using assms shouldRateLimit_admit_record [OF assms] by (simp add: prod_eq_iff)
  then show ?thesis
    by (simp add: handler_def respond_def split_beta Let_def)
qed


lemma getClientIP_client: "getClientIP client = ''1.2.3.4''"
  by (simp add: client_def request_from_def getClientIP_def present_def)

lemma scenario_from_nonzero_clock:
  assumes "t0 \<noteq> 0"
  shows "fst (handler client t0 fresh_world) = badge_response (Num 1)"
    and "fst (handler client (t0 + 10000) (snd (handler client t0 fresh_world))) =
           badge_response (Num 1)"
    and "fst (handler client (t0 + 70000)
           (snd (handler client (t0 + 10000) (snd (handler client t0 fresh_world))))) =
           badge_response (Num 2)"
proof -
  define ip where "ip = ''1.2.3.4''"
  define w0 where "w0 = fresh_world\<lparr>rateLimitMap := (rateLimitMap fresh_world)(ip \<mapsto> t0)\<rparr>"
  define w1 where "w1 = w0\<lparr>counter_file := Some (JSON_stringify_count (Num 1))\<rparr>"
  define w2 where "w2 = w1\<lparr>rateLimitMap := (rateLimitMap w1)(ip \<mapsto> t0 + 70000)\<rparr>"
  have ip: "getClientIP client = ip"
    by (simp add: ip_def getClientIP_client)
  have new: "rateLimitMap fresh_world ip = None"
    by (simp add: fresh_world_def)
  have a1: "\<not> fst (shouldRateLimit (getClientIP client) t0 (rateLimitMap fresh_world))"
    by (simp add: ip admission_first_request [of "rateLimitMap fresh_world" ip, OF new])
  have i1: "increment w0 = (Inr (Num 1), w1)"
    unfolding w1_def by (rule increment_file_absent) (simp_all add: w0_def fresh_fields)
  have h1: "handler client t0 fresh_world = (badge_response (Num 1), w1)"
    using handler_admitted [OF a1] i1 by (simp add: ip w0_def respond_def)
  have rec1: "rateLimitMap w1 ip = Some t0"
    by (simp add: w1_def w0_def)
  have a2: "fst (shouldRateLimit (getClientIP client) (t0 + 10000) (rateLimitMap w1))"
    by (simp add: ip admission_nonzero_record [of "rateLimitMap w1" ip t0, OF rec1 assms])
  have g2: "getCount w1 = (Inr (Num (int 1)), w1)"
    by (rule getCount_file_count)
      (simp_all add: w1_def w0_def fresh_fields MAX_SAFE_INTEGER_def)
  have h2: "handler client (t0 + 10000) w1 = (badge_response (Num 1), w1)"
    using handler_suppressed [OF a2] g2 by (simp add: respond_def)
  have a3: "\<not> fst (shouldRateLimit (getClientIP client) (t0 + 70000) (rateLimitMap w1))"
    by (simp add: ip admission_nonzero_record [of "rateLimitMap w1" ip t0, OF rec1 assms])
  have i3: "increment w2 = (Inr (Num (int (Suc 1))),
      w2\<lparr>counter_file := Some (JSON_stringify_count (Num (int (Suc 1))))\<rparr>)"
    by (rule increment_file_count)
      (simp_all add: w2_def w1_def w0_def fresh_fields MAX_SAFE_INTEGER_def)
  have h3: "fst (handler client (t0 + 70000) w1) = badge_response (Num 2)"
    using handler_admitted [OF a3] i3 by (simp add: ip w2_def respond_def)
  show "fst (handler client t0 fresh_world) = badge_response (Num 1)"
    by (simp add: h1)
  show "fst (handler client (t0 + 10000) (snd (handler client t0 fresh_world))) =
      badge_response (Num 1)"
    by (simp add: h1 h2)
  show "fst (handler client (t0 + 70000)
      (snd (handler client (t0 + 10000) (snd (handler client t0 fresh_world))))) =
      badge_response (Num 2)"
    by (simp add: h1 h2 h3)
qed

lemma failed_increment_keeps_slot:
  assumes "\<not> fst (shouldRateLimit (getClientIP r) now (rateLimitMap w))"
    and "fst (increment (w\<lparr>rateLimitMap := (rateLimitMap w)(getClientIP r \<mapsto> now)\<rparr>)) = Inl e"
  shows "fst (handler r now w) = error_response"
    and "rateLimitMap (snd (handler r now w)) = (rateLimitMap w)(getClientIP r \<mapsto> now)"
    and "now \<noteq> 0 \<Longrightarrow> later - now < 60000 \<Longrightarrow>
         fst (shouldRateLimit (getClientIP r) later (rateLimitMap (snd (handler r now w))))"
proof -
  show "fst (handler r now w) = error_response"
    using assms(2) by (simp add: handler_admitted [OF assms(1)] respond_def)
  show m: "rateLimitMap (snd (handler r now w)) = (rateLimitMap w)(getClientIP r \<mapsto> now)"
    by (simp add: handler_admitted [OF assms(1)] increment_keeps_map)
  show "fst (shouldRateLimit (getClientIP r) later (rateLimitMap (snd (handler r now w))))"
    if "now \<noteq> 0" "later - now < 60000"
    using that by (simp add: m shouldRateLimit_suppress_iff RATE_LIMIT_WINDOW_def)
qed



end
